theory Spec2Isabelle
  imports Main
begin

section \<open>The PIN screen: data model\<close>

text \<open>
  The screen component \<open>PinScreen\<close> keeps five pieces of React state and talks to four
  external collaborators: the credential store (\<open>useCredentialProvider\<close>), the key-value
  storage holding the retry counter (\<open>AsyncStorage\<close>), the biometric scanner and the
  caller (result callback, navigation, alerts, restart). Every handler and effect of the
  component is embedded as a function from the state before to the state after; an
  asynchronous handler is embedded as the sequential run of its body, every awaited
  collaborator call fulfilling.
\<close>

definition PIN_COUNT :: nat where
  "PIN_COUNT = 4"

definition PIN_TRY_MAX :: nat where
  "PIN_TRY_MAX = 10"

text \<open>\<^verbatim>\<open>type PinType = "set" | "auth" | "reset"\<close>\<close>

datatype PinType = PinSet | PinAuth | PinReset

text \<open>The state \<^verbatim>\<open>"input" | "confirm" | "done"\<close> of \<open>pinConfigurePhase\<close>.\<close>

datatype ConfigurePhase = PhaseInput | PhaseConfirm | PhaseDone

datatype AlertType = AlertSuccess | AlertError

text \<open>Calls the component makes to its surroundings, in the order they are made.\<close>

datatype event =
    ResultCallback bool
  | DispatchAlert AlertType string
  | FingerprintAuthenticate string
  | ConsoleLog string
  | RemoveKeys
  | Restart
  | NavigationPop

text \<open>
  What the component receives from outside: the route parameter \<open>type\<close>, whether the
  route supplies a \<open>result\<close> callback (every call of it is guarded by
  \<^verbatim>\<open>resultCallback &&\<close>), and \<open>biometricType\<close> of the Turnkey context (\<open>None\<close> is
  \<^verbatim>\<open>null\<close>).
\<close>

record params =
  ptype :: PinType
  hasResult :: bool
  biometricType :: "string option"

text \<open>
  The first five fields are the \<open>useState\<close> cells of the component. The others are
  the surroundings. \<open>storedPin\<close> is the active PIN of the credential store; the source
  tests what \<open>getPin\<close> returns with \<^verbatim>\<open>!v\<close>, so the value may be \<^verbatim>\<open>null\<close> or
  \<^verbatim>\<open>undefined\<close> (\<open>None\<close>) as well as a string. \<open>storedNewPin\<close> is the staged PIN; the
  source compares what \<open>getNewPin\<close> returns with \<^verbatim>\<open>""\<close> and with \<open>inputPin\<close> by
  \<^verbatim>\<open>===\<close>, so it is a string, empty when nothing is staged. \<open>storedTryCount\<close> is the
  item \<open>PIN_TRY_COUNT\<close> of \<open>AsyncStorage\<close> (\<open>None\<close> when the key is absent); the item is
  the decimal string \<open>String(count)\<close> of a count, read back with \<open>Number\<close>, and is kept
  here as the count it denotes. \<open>calls\<close> is the trace of outgoing calls.
\<close>

record pin_state =
  pinType :: PinType
  inputPin :: string
  pinConfigurePhase :: ConfigurePhase
  pinTryCount :: nat
  visibleResetModal :: bool
  storedPin :: "string option"
  storedNewPin :: string
  storedTryCount :: "nat option"
  calls :: "event list"

text \<open>The initial values of the \<open>useState\<close> cells; the surroundings are arbitrary.\<close>

definition initial :: "params \<Rightarrow> pin_state \<Rightarrow> bool" where
  "initial p s \<longleftrightarrow>
     pinType s = ptype p \<and> inputPin s = [] \<and> pinConfigurePhase s = PhaseInput \<and>
     pinTryCount s = 0 \<and> \<not> visibleResetModal s"

section \<open>The credential store\<close>

text \<open>
  The hook \<open>useCredentialProvider\<close> is not among the sources; the component only calls
  it. Its operations are taken from the spec's table of external interfaces, acting on
  the two fields \<open>storedPin\<close> and \<open>storedNewPin\<close>.
\<close>

text \<open>Modelled from the spec: \<open>getPin\<close> returns the currently active PIN, empty if unset.\<close>

definition getPin :: "pin_state \<Rightarrow> string option" where
  "getPin s = storedPin s"

text \<open>Modelled from the spec: \<open>savePin\<close> persists the active PIN.\<close>

definition savePin :: "string \<Rightarrow> pin_state \<Rightarrow> pin_state" where
  "savePin pin s = s\<lparr>storedPin := Some pin\<rparr>"

text \<open>Modelled from the spec: \<open>getNewPin\<close> returns the PIN staged during the configure flow.\<close>

definition getNewPin :: "pin_state \<Rightarrow> string" where
  "getNewPin s = storedNewPin s"

text \<open>Modelled from the spec: \<open>saveNewPin\<close> stages the pending PIN.\<close>

definition saveNewPin :: "string \<Rightarrow> pin_state \<Rightarrow> pin_state" where
  "saveNewPin pin s = s\<lparr>storedNewPin := pin\<rparr>"

text \<open>Modelled from the spec: \<open>resetNewPin\<close> clears the pending PIN.\<close>

definition resetNewPin :: "pin_state \<Rightarrow> pin_state" where
  "resetNewPin s = s\<lparr>storedNewPin := []\<rparr>"

text \<open>
  Modelled from the spec: \<open>removeKeys\<close> wipes all stored credentials. The call is
  recorded in the trace as well.
\<close>

definition removeKeys :: "pin_state \<Rightarrow> pin_state" where
  "removeKeys s = s\<lparr>storedPin := None, storedNewPin := [], calls := calls s @ [RemoveKeys]\<rparr>"

section \<open>Handlers of the component\<close>

text \<open>JavaScript truthiness of a string that may be \<^verbatim>\<open>null\<close>: \<^verbatim>\<open>!v\<close>.\<close>

definition falsy :: "string option \<Rightarrow> bool" where
  "falsy v = (case v of None \<Rightarrow> True | Some x \<Rightarrow> x = [])"

text \<open>
  \<^verbatim>\<open>str.slice(0, -1)\<close>: a negative end counts from the end of the string and is
  clamped at 0.
\<close>

definition slice_0_minus_1 :: "string \<Rightarrow> string" where
  "slice_0_minus_1 str = take (nat (max (int (length str) - 1) 0)) str"

definition handleInput :: "string \<Rightarrow> pin_state \<Rightarrow> pin_state" where
  "handleInput v s =
     (if length (inputPin s) \<ge> PIN_COUNT then s
      else s\<lparr>inputPin := inputPin s @ v\<rparr>)"

definition handleDelete :: "pin_state \<Rightarrow> pin_state" where
  "handleDelete s =
     (if length (inputPin s) \<le> 0 \<and> length (inputPin s) \<ge> PIN_COUNT then s
      else s\<lparr>inputPin := slice_0_minus_1 (inputPin s)\<rparr>)"

definition clearInputPin :: "pin_state \<Rightarrow> pin_state" where
  "clearInputPin s = s\<lparr>inputPin := []\<rparr>"

text \<open>\<^verbatim>\<open>(await AsyncStorage.getItem(PIN_TRY_COUNT)) || "0"\<close>, then \<open>Number\<close>.\<close>

definition initPinTryCount :: "pin_state \<Rightarrow> pin_state" where
  "initPinTryCount s =
     s\<lparr>pinTryCount := (case storedTryCount s of None \<Rightarrow> 0 | Some c \<Rightarrow> c)\<rparr>"

definition increasePinTryCount :: "pin_state \<Rightarrow> pin_state" where
  "increasePinTryCount s =
     (let count = pinTryCount s + 1
      in s\<lparr>pinTryCount := count, storedTryCount := Some count\<rparr>)"

definition resetPinTryCount :: "pin_state \<Rightarrow> pin_state" where
  "resetPinTryCount s =
     s\<lparr>visibleResetModal := False, pinTryCount := 0, storedTryCount := Some 0\<rparr>"

text \<open>\<^verbatim>\<open>resultCallback && resultCallback(b)\<close>\<close>

definition resultCallback :: "params \<Rightarrow> bool \<Rightarrow> pin_state \<Rightarrow> pin_state" where
  "resultCallback p b s =
     (if hasResult p then s\<lparr>calls := calls s @ [ResultCallback b]\<rparr> else s)"

definition dispatchAlert :: "AlertType \<Rightarrow> string \<Rightarrow> pin_state \<Rightarrow> pin_state" where
  "dispatchAlert t m s = s\<lparr>calls := calls s @ [DispatchAlert t m]\<rparr>"

definition setPinConfigurePhase :: "ConfigurePhase \<Rightarrow> pin_state \<Rightarrow> pin_state" where
  "setPinConfigurePhase ph s = s\<lparr>pinConfigurePhase := ph\<rparr>"

definition setVisibleResetModal :: "bool \<Rightarrow> pin_state \<Rightarrow> pin_state" where
  "setVisibleResetModal b s = s\<lparr>visibleResetModal := b\<rparr>"

text \<open>
  The body of the effect that evaluates the buffer (\<open>handlePin\<close>). The closure reads
  \<open>pinType\<close> and \<open>inputPin\<close> of the render it belongs to, here the state before.
  The cases \<^verbatim>\<open>"reset"\<close> and \<^verbatim>\<open>"set"\<close> of the \<open>switch\<close> share one body. The calls
  \<open>resetPinTryCount()\<close> and \<open>increasePinTryCount()\<close> are not awaited; they write the
  state and start the write to storage before the next statement runs.
\<close>

definition handlePin :: "params \<Rightarrow> pin_state \<Rightarrow> pin_state" where
  "handlePin p s =
     (case pinType s of
        PinAuth \<Rightarrow>
          if length (inputPin s) = 4 then
            let v = getPin s;
                match = (falsy v \<or> Some (inputPin s) = v);
                s1 = (if match then resetPinTryCount s else increasePinTryCount s);
                s2 = clearInputPin s1
            in resultCallback p match s2
          else s
      | _ \<Rightarrow>
          if length (inputPin s) = 4 then
            let newPin = getNewPin s;
                s5 =
                  (if newPin = [] then
                     setPinConfigurePhase PhaseConfirm (saveNewPin (inputPin s) s)
                   else
                     let s4 =
                       (if newPin = inputPin s then
                          let s1 = savePin (inputPin s) s;
                              s2 = dispatchAlert AlertSuccess
                                     ''PIN code has been set up successfully.'' s1;
                              s3 = (if pinType s \<noteq> PinReset
                                    then setPinConfigurePhase PhaseDone s2 else s2)
                          in resultCallback p True (resetPinTryCount s3)
                        else
                          setPinConfigurePhase PhaseInput
                            (dispatchAlert AlertError ''Failed to set up PIN code.'' s))
                     in resetNewPin s4)
            in clearInputPin s5
          else s)"

text \<open>\<^verbatim>\<open>removeKeys().then(() => RNRestart.restart())\<close>\<close>

definition onResetPin :: "pin_state \<Rightarrow> pin_state" where
  "onResetPin s = (let s1 = removeKeys s in s1\<lparr>calls := calls s1 @ [Restart]\<rparr>)"

section \<open>Effects of the component\<close>

text \<open>
  The check of the lockout threshold, written twice in the source: in the focus effect
  and in the effect that depends on \<open>pinTryCount\<close> and \<open>type\<close>. It reads the route
  parameter \<open>type\<close>, not the state \<open>pinType\<close>.
\<close>

definition lockoutCheck :: "params \<Rightarrow> pin_state \<Rightarrow> pin_state" where
  "lockoutCheck p s =
     (if ptype p = PinAuth \<and> pinTryCount s \<ge> PIN_TRY_MAX
      then setVisibleResetModal True s else s)"

text \<open>
  The callback of \<open>useFocusEffect\<close>. \<open>initPinTryCount\<close> is started first, but the check
  reads \<open>pinTryCount\<close> of the render the callback belongs to, which is the count before
  the stored one is loaded.
\<close>

definition focusEffect :: "params \<Rightarrow> pin_state \<Rightarrow> pin_state" where
  "focusEffect p s =
     (let s1 = initPinTryCount s
      in if ptype p = PinAuth \<and> pinTryCount s \<ge> PIN_TRY_MAX
         then setVisibleResetModal True s1 else s1)"

text \<open>The cleanup the focus effect returns, run when the screen loses focus.\<close>

definition focusCleanup :: "pin_state \<Rightarrow> pin_state" where
  "focusCleanup s = setVisibleResetModal False s"

text \<open>The effect on \<open>[resetNewPin]\<close>, run when the component mounts.\<close>

definition mountEffect :: "pin_state \<Rightarrow> pin_state" where
  "mountEffect s = initPinTryCount (resetNewPin (clearInputPin s))"

text \<open>The effect on \<open>[type]\<close>: \<^verbatim>\<open>setPinType(type)\<close>.\<close>

definition typeEffect :: "params \<Rightarrow> pin_state \<Rightarrow> pin_state" where
  "typeEffect p s = s\<lparr>pinType := ptype p\<rparr>"

text \<open>
  The outcome of \<open>FingerprintScanner.authenticate\<close>: the promise fulfils, or it rejects
  with an error (kept as its printed form).
\<close>

datatype BiometricOutcome = BiometricSuccess | BiometricFailure string

text \<open>The asynchronous effect on \<open>[pinType]\<close> that tries the biometric scanner.\<close>

definition biometricEffect :: "params \<Rightarrow> BiometricOutcome \<Rightarrow> pin_state \<Rightarrow> pin_state" where
  "biometricEffect p outcome s =
     (if pinType s \<noteq> PinAuth then s
      else case biometricType p of
        None \<Rightarrow> s
      | Some b \<Rightarrow>
          let s1 = s\<lparr>calls := calls s @ [FingerprintAuthenticate (''Sign in with '' @ b)]\<rparr>
          in case outcome of
               BiometricSuccess \<Rightarrow> resultCallback p True s1
             | BiometricFailure e \<Rightarrow> s1\<lparr>calls := calls s1 @ [ConsoleLog e]\<rparr>)"

text \<open>
  The negative action of the lockout prompt: \<^verbatim>\<open>navigation.pop()\<close>. Popping the screen
  takes the focus from it, so the next thing to run is \<open>focusCleanup\<close>.
\<close>

definition onLater :: "pin_state \<Rightarrow> pin_state" where
  "onLater s = s\<lparr>calls := calls s @ [NavigationPop]\<rparr>"

section \<open>What the screen renders\<close>

text \<open>
  The second warning line (\<open>You have to reset your PIN code if you enter the wrong PIN
  code again.\<close>) is rendered when \<^verbatim>\<open>pinType === "auth" && pinTryCount >= PIN_TRY_MAX - 1\<close>;
  the lockout prompt is the \<open>FormModal\<close> whose \<open>visible\<close> is \<open>visibleResetModal\<close>.
\<close>

definition resetWarningShown :: "pin_state \<Rightarrow> bool" where
  "resetWarningShown s \<longleftrightarrow> pinType s = PinAuth \<and> pinTryCount s \<ge> PIN_TRY_MAX - 1"

definition lockoutPromptVisible :: "pin_state \<Rightarrow> bool" where
  "lockoutPromptVisible s \<longleftrightarrow> visibleResetModal s"

text \<open>The values of the digit buttons, row by row of the keypad.\<close>

definition digitValues :: "string list" where
  "digitValues =
     [''1'', ''2'', ''3''] @ [''4'', ''5'', ''6''] @ [''7'', ''8'', ''9''] @ [''0'']"

section \<open>The states the screen can reach\<close>

text \<open>
  From an initial state, any handler or effect may run next, with the route parameters
  fixed for the life of the screen.
\<close>

inductive reachable :: "params \<Rightarrow> pin_state \<Rightarrow> bool" for p :: params where
  r_init: "initial p s \<Longrightarrow> reachable p s"
| r_input: "reachable p s \<Longrightarrow> v \<in> set digitValues \<Longrightarrow> reachable p (handleInput v s)"
| r_delete: "reachable p s \<Longrightarrow> reachable p (handleDelete s)"
| r_evaluate: "reachable p s \<Longrightarrow> reachable p (handlePin p s)"
| r_focus: "reachable p s \<Longrightarrow> reachable p (focusEffect p s)"
| r_blur: "reachable p s \<Longrightarrow> reachable p (focusCleanup s)"
| r_mount: "reachable p s \<Longrightarrow> reachable p (mountEffect s)"
| r_count: "reachable p s \<Longrightarrow> reachable p (lockoutCheck p s)"
| r_type: "reachable p s \<Longrightarrow> reachable p (typeEffect p s)"
| r_biometric: "reachable p s \<Longrightarrow> reachable p (biometricEffect p outcome s)"
| r_reset: "reachable p s \<Longrightarrow> reachable p (onResetPin s)"
| r_later: "reachable p s \<Longrightarrow> reachable p (onLater s)"

text \<open>
  What holds in every reachable state: the state \<open>pinType\<close> agrees with the route
  parameter, a visible prompt means Authenticate mode at or over the threshold, and the
  count in memory is either still the initial 0 or the count in storage.
\<close>

definition lockout_inv :: "params \<Rightarrow> pin_state \<Rightarrow> bool" where
  "lockout_inv p s \<longleftrightarrow>
     pinType s = ptype p \<and>
     (visibleResetModal s \<longrightarrow> ptype p = PinAuth \<and> pinTryCount s \<ge> PIN_TRY_MAX) \<and>
     (pinTryCount s = 0 \<or> storedTryCount s = Some (pinTryCount s))"

section \<open>Example inputs\<close>

abbreviation example_params :: "PinType \<Rightarrow> params" where
  "example_params t \<equiv> \<lparr>ptype = t, hasResult = True, biometricType = Some ''FaceID''\<rparr>"

text \<open>
  A state in mode \<open>t\<close> with buffer \<open>buf\<close>, active PIN \<open>pin\<close>, staged PIN \<open>new\<close> and
  retry count \<open>n\<close> both in memory and in storage.
\<close>

abbreviation example_state ::
    "PinType \<Rightarrow> string \<Rightarrow> string option \<Rightarrow> string \<Rightarrow> nat \<Rightarrow> pin_state" where
  "example_state t buf pin new n \<equiv>
     \<lparr>pinType = t, inputPin = buf, pinConfigurePhase = PhaseInput, pinTryCount = n,
      visibleResetModal = False, storedPin = pin, storedNewPin = new,
      storedTryCount = Some n, calls = []\<rparr>"

text \<open>The state of a screen just created in mode \<open>t\<close>, with \<open>n\<close> in storage.\<close>

abbreviation example_fresh :: "PinType \<Rightarrow> nat \<Rightarrow> pin_state" where
  "example_fresh t n \<equiv>
     \<lparr>pinType = t, inputPin = [], pinConfigurePhase = PhaseInput, pinTryCount = 0,
      visibleResetModal = False, storedPin = Some ''1234'', storedNewPin = [],
      storedTryCount = Some n, calls = []\<rparr>"

section \<open>Unfolding\<close>

lemmas store_defs =
  getPin_def savePin_def getNewPin_def saveNewPin_def resetNewPin_def removeKeys_def

lemmas set_defs =
  clearInputPin_def initPinTryCount_def increasePinTryCount_def resetPinTryCount_def
  resultCallback_def dispatchAlert_def setPinConfigurePhase_def setVisibleResetModal_def

section \<open>Digit entry\<close>

lemma fold_handleInput_length:
  "\<forall>v \<in> set vs. length v = 1 \<Longrightarrow> length (inputPin s) \<le> 4 \<Longrightarrow>
   length (inputPin (fold handleInput vs s)) = min 4 (length (inputPin s) + length vs)"
proof (induction vs arbitrary: s)
  case Nil
  then show ?case by simp
next
  case (Cons v vs)
  then show ?case by (auto simp: handleInput_def PIN_COUNT_def)
qed

text \<open>
  Claim C8. Appending a digit to a buffer that already holds 4 digits changes nothing;
  otherwise the digit is appended at the end and nothing else changes. A buffer of at
  most 4 digits stays at most 4 digits long, and after pressing the digits \<open>vs\<close> one after
  the other from an empty buffer the length is \<open>min 4 (length vs)\<close>: the number of
  presses up to 4, and 4 from then on.
\<close>

theorem handleInput_appends:
  "(length (inputPin s) \<ge> 4 \<longrightarrow> handleInput v s = s) \<and>
   (length (inputPin s) < 4 \<longrightarrow> handleInput v s = s\<lparr>inputPin := inputPin s @ v\<rparr>) \<and>
   (length (inputPin s) \<le> 4 \<and> length v = 1 \<longrightarrow> length (inputPin (handleInput v s)) \<le> 4) \<and>
   (inputPin s = [] \<and> (\<forall>v \<in> set vs. length v = 1) \<longrightarrow>
      length (inputPin (fold handleInput vs s)) = min 4 (length vs))"
  using fold_handleInput_length [of vs s]
  by (auto simp: handleInput_def PIN_COUNT_def)

theorem handleInput_appends_witness:
  "length (inputPin (example_state PinAuth ''1234'' None [] 0)) \<ge> 4 \<and>
   handleInput ''5'' (example_state PinAuth ''1234'' None [] 0) =
     example_state PinAuth ''1234'' None [] 0 \<and>
   length (inputPin (example_state PinAuth ''12'' None [] 0)) < 4 \<and>
   handleInput ''5'' (example_state PinAuth ''12'' None [] 0) =
     example_state PinAuth ''125'' None [] 0 \<and>
   inputPin (example_state PinAuth [] None [] 0) = [] \<and>
   length ''7'' = 1 \<and> length ''0'' = 1 \<and>
   length (inputPin (fold handleInput [''7'', ''0'', ''7'']
     (example_state PinAuth [] None [] 0))) = 3"
  using handleInput_appends [of "example_state PinAuth ''1234'' None [] 0" "''5''" "[]"]
    handleInput_appends [of "example_state PinAuth ''12'' None [] 0" "''5''" "[]"]
    handleInput_appends [of "example_state PinAuth [] None [] 0" "''5''" "[''7'', ''0'', ''7'']"]
  by simp

section \<open>Deleting\<close>

text \<open>
  Claim C9. Deleting on an empty buffer leaves the whole state as it is, the buffer
  still empty; deleting on a buffer that ends with the digit \<open>d\<close> removes exactly that
  digit and changes nothing else. The length goes down by one and stops at 0.
\<close>

theorem handleDelete_removes_last:
  "(inputPin s = [] \<longrightarrow> handleDelete s = s) \<and>
   (inputPin s = ds @ [d] \<longrightarrow> handleDelete s = s\<lparr>inputPin := ds\<rparr>) \<and>
   length (inputPin (handleDelete s)) = length (inputPin s) - 1"
  by (auto simp: handleDelete_def slice_0_minus_1_def PIN_COUNT_def)

theorem handleDelete_removes_last_witness:
  "inputPin (example_state PinAuth [] None [] 0) = [] \<and>
   handleDelete (example_state PinAuth [] None [] 0) = example_state PinAuth [] None [] 0 \<and>
   inputPin (example_state PinAuth ''123'' None [] 0) = ''12'' @ ''3'' \<and>
   handleDelete (example_state PinAuth ''123'' None [] 0) =
     example_state PinAuth ''12'' None [] 0"
  using handleDelete_removes_last [of "example_state PinAuth [] None [] 0" "[]" "CHR ''3''"]
    handleDelete_removes_last [of "example_state PinAuth ''123'' None [] 0" "''12''" "CHR ''3''"]
  by simp

section \<open>Evaluating a completed buffer\<close>

text \<open>
  Claim C1. In Authenticate mode, with a buffer of 4 digits and a non-empty stored PIN
  \<open>v\<close>: when the buffer equals \<open>v\<close>, evaluation sets the retry count to 0 in memory and
  in storage, hides the lockout prompt, clears the buffer and calls the result callback
  with \<open>true\<close>; when it differs, evaluation adds exactly 1 to the retry count, in memory
  and in storage, clears the buffer and calls the result callback with \<open>false\<close>. The
  callback is called when the route supplies one. Nothing else changes.
\<close>

theorem auth_evaluation:
  "pinType s = PinAuth \<and> length (inputPin s) = 4 \<and> storedPin s = Some v \<and> v \<noteq> [] \<longrightarrow>
   (inputPin s = v \<longrightarrow>
      handlePin p s = s\<lparr>inputPin := [], pinTryCount := 0, visibleResetModal := False,
        storedTryCount := Some 0,
        calls := calls s @ (if hasResult p then [ResultCallback True] else [])\<rparr>) \<and>
   (inputPin s \<noteq> v \<longrightarrow>
      handlePin p s = s\<lparr>inputPin := [], pinTryCount := pinTryCount s + 1,
        storedTryCount := Some (pinTryCount s + 1),
        calls := calls s @ (if hasResult p then [ResultCallback False] else [])\<rparr>)"
  by (auto simp add: handlePin_def store_defs set_defs falsy_def Let_def)

theorem auth_evaluation_witness:
  "pinType (example_state PinAuth ''1234'' (Some ''1234'') [] 3) = PinAuth \<and>
   length (inputPin (example_state PinAuth ''1234'' (Some ''1234'') [] 3)) = 4 \<and>
   handlePin (example_params PinAuth) (example_state PinAuth ''1234'' (Some ''1234'') [] 3) =
     (example_state PinAuth [] (Some ''1234'') [] 0)\<lparr>calls := [ResultCallback True]\<rparr> \<and>
   handlePin (example_params PinAuth) (example_state PinAuth ''0000'' (Some ''1234'') [] 3) =
     (example_state PinAuth [] (Some ''1234'') [] 4)\<lparr>calls := [ResultCallback False]\<rparr>"
  using
    auth_evaluation [of "example_state PinAuth ''1234'' (Some ''1234'') [] 3" "''1234''"
      "example_params PinAuth"]
    auth_evaluation [of "example_state PinAuth ''0000'' (Some ''1234'') [] 3" "''1234''"
      "example_params PinAuth"]
  by simp

text \<open>
  Claim C2. In Authenticate mode, when the credential store holds no PIN (\<open>getPin\<close>
  returns nothing or the empty string), every buffer of 4 digits counts as a match:
  the retry count is set to 0 in memory and in storage, never raised, the buffer is
  cleared and the result callback is called with \<open>true\<close>.
\<close>

theorem auth_no_stored_pin:
  "pinType s = PinAuth \<and> length (inputPin s) = 4 \<and>
   (storedPin s = None \<or> storedPin s = Some []) \<longrightarrow>
     handlePin p s = s\<lparr>inputPin := [], pinTryCount := 0, visibleResetModal := False,
        storedTryCount := Some 0,
        calls := calls s @ (if hasResult p then [ResultCallback True] else [])\<rparr>"
  by (auto simp add: handlePin_def store_defs set_defs falsy_def Let_def)

theorem auth_no_stored_pin_witness:
  "pinType (example_state PinAuth ''9876'' None [] 7) = PinAuth \<and>
   length (inputPin (example_state PinAuth ''9876'' None [] 7)) = 4 \<and>
   storedPin (example_state PinAuth ''9876'' None [] 7) = None \<and>
   handlePin (example_params PinAuth) (example_state PinAuth ''9876'' None [] 7) =
     (example_state PinAuth [] None [] 0)\<lparr>calls := [ResultCallback True]\<rparr> \<and>
   handlePin (example_params PinAuth) (example_state PinAuth ''9876'' (Some []) [] 7) =
     (example_state PinAuth [] (Some []) [] 0)\<lparr>calls := [ResultCallback True]\<rparr>"
  using
    auth_no_stored_pin [of "example_state PinAuth ''9876'' None [] 7" "example_params PinAuth"]
    auth_no_stored_pin [of "example_state PinAuth ''9876'' (Some []) [] 7"
      "example_params PinAuth"]
  by simp

text \<open>
  Claim C3. In Set or Reset mode, with a buffer of 4 digits: when no PIN is staged, the
  buffer is staged and the phase becomes Confirm; when the staged PIN equals the buffer,
  the buffer is saved as the active PIN, the success alert is dispatched, the result
  callback is called with \<open>true\<close>, and the phase becomes Done in Set mode and stays as
  it is in Reset mode; when the staged PIN differs, the error alert is dispatched and
  the phase becomes Input. In both confirmation branches the staged PIN is cleared, and
  in all three the buffer is cleared.
\<close>

theorem configure_evaluation:
  "pinType s \<noteq> PinAuth \<and> length (inputPin s) = 4 \<longrightarrow>
   (storedNewPin s = [] \<longrightarrow>
      handlePin p s = s\<lparr>inputPin := [], pinConfigurePhase := PhaseConfirm,
        storedNewPin := inputPin s\<rparr>) \<and>
   (storedNewPin s \<noteq> [] \<and> storedNewPin s = inputPin s \<longrightarrow>
      handlePin p s = s\<lparr>inputPin := [],
        pinConfigurePhase := (if pinType s = PinSet then PhaseDone else pinConfigurePhase s),
        pinTryCount := 0, visibleResetModal := False,
        storedPin := Some (inputPin s), storedNewPin := [], storedTryCount := Some 0,
        calls := calls s @
          [DispatchAlert AlertSuccess ''PIN code has been set up successfully.''] @
          (if hasResult p then [ResultCallback True] else [])\<rparr>) \<and>
   (storedNewPin s \<noteq> [] \<and> storedNewPin s \<noteq> inputPin s \<longrightarrow>
      handlePin p s = s\<lparr>inputPin := [], pinConfigurePhase := PhaseInput,
        storedNewPin := [],
        calls := calls s @ [DispatchAlert AlertError ''Failed to set up PIN code.'']\<rparr>)"
  by (cases "pinType s") (auto simp add: handlePin_def store_defs set_defs Let_def)

theorem configure_evaluation_witness:
  "pinType (example_state PinSet ''2580'' None [] 0) \<noteq> PinAuth \<and>
   length (inputPin (example_state PinSet ''2580'' None [] 0)) = 4 \<and>
   handlePin (example_params PinSet) (example_state PinSet ''2580'' None [] 0) =
     (example_state PinSet [] None ''2580'' 0)\<lparr>pinConfigurePhase := PhaseConfirm\<rparr> \<and>
   handlePin (example_params PinSet)
       ((example_state PinSet ''2580'' None ''2580'' 0)\<lparr>pinConfigurePhase := PhaseConfirm\<rparr>) =
     (example_state PinSet [] (Some ''2580'') [] 0)\<lparr>pinConfigurePhase := PhaseDone,
        calls := [DispatchAlert AlertSuccess ''PIN code has been set up successfully.'',
                  ResultCallback True]\<rparr> \<and>
   handlePin (example_params PinReset)
       ((example_state PinReset ''2580'' None ''2580'' 0)\<lparr>pinConfigurePhase := PhaseConfirm\<rparr>) =
     (example_state PinReset [] (Some ''2580'') [] 0)\<lparr>pinConfigurePhase := PhaseConfirm,
        calls := [DispatchAlert AlertSuccess ''PIN code has been set up successfully.'',
                  ResultCallback True]\<rparr> \<and>
   handlePin (example_params PinSet)
       ((example_state PinSet ''2581'' None ''2580'' 0)\<lparr>pinConfigurePhase := PhaseConfirm\<rparr>) =
     (example_state PinSet [] None [] 0)\<lparr>
        calls := [DispatchAlert AlertError ''Failed to set up PIN code.'']\<rparr>"
  using
    configure_evaluation [of "example_state PinSet ''2580'' None [] 0" "example_params PinSet"]
    configure_evaluation [of
      "(example_state PinSet ''2580'' None ''2580'' 0)\<lparr>pinConfigurePhase := PhaseConfirm\<rparr>"
      "example_params PinSet"]
    configure_evaluation [of
      "(example_state PinReset ''2580'' None ''2580'' 0)\<lparr>pinConfigurePhase := PhaseConfirm\<rparr>"
      "example_params PinReset"]
    configure_evaluation [of
      "(example_state PinSet ''2581'' None ''2580'' 0)\<lparr>pinConfigurePhase := PhaseConfirm\<rparr>"
      "example_params PinSet"]
  by simp

subsection \<open>The render between the two writes of one evaluation\<close>




section \<open>The lockout prompt\<close>

lemma inv_initial: "initial p s \<Longrightarrow> lockout_inv p s"
  by (simp add: initial_def lockout_inv_def)

lemma inv_handleInput: "lockout_inv p s \<Longrightarrow> lockout_inv p (handleInput v s)"
  by (simp add: lockout_inv_def handleInput_def)

lemma inv_handleDelete: "lockout_inv p s \<Longrightarrow> lockout_inv p (handleDelete s)"
  by (simp add: lockout_inv_def handleDelete_def)

lemma inv_handlePin: "lockout_inv p s \<Longrightarrow> lockout_inv p (handlePin q s)"
  by (cases "pinType s")
     (auto simp add: lockout_inv_def handlePin_def store_defs set_defs Let_def)

lemma inv_focusEffect: "lockout_inv p s \<Longrightarrow> lockout_inv p (focusEffect p s)"
  by (auto simp add: lockout_inv_def focusEffect_def set_defs PIN_TRY_MAX_def Let_def
      split: option.splits)

lemma inv_focusCleanup: "lockout_inv p s \<Longrightarrow> lockout_inv p (focusCleanup s)"
  by (simp add: lockout_inv_def focusCleanup_def set_defs)

lemma inv_mountEffect: "lockout_inv p s \<Longrightarrow> lockout_inv p (mountEffect s)"
  by (auto simp add: lockout_inv_def mountEffect_def set_defs store_defs PIN_TRY_MAX_def
      split: option.splits)

lemma inv_lockoutCheck: "lockout_inv p s \<Longrightarrow> lockout_inv p (lockoutCheck p s)"
  by (simp add: lockout_inv_def lockoutCheck_def set_defs)

lemma inv_typeEffect: "lockout_inv p s \<Longrightarrow> lockout_inv p (typeEffect p s)"
  by (simp add: lockout_inv_def typeEffect_def)

lemma inv_biometricEffect: "lockout_inv p s \<Longrightarrow> lockout_inv p (biometricEffect q outcome s)"
  by (auto simp add: lockout_inv_def biometricEffect_def set_defs Let_def
      split: option.splits BiometricOutcome.splits)

lemma inv_onResetPin: "lockout_inv p s \<Longrightarrow> lockout_inv p (onResetPin s)"
  by (simp add: lockout_inv_def onResetPin_def store_defs Let_def)

lemma inv_onLater: "lockout_inv p s \<Longrightarrow> lockout_inv p (onLater s)"
  by (simp add: lockout_inv_def onLater_def)

lemma reachable_inv: "reachable p s \<Longrightarrow> lockout_inv p s"
proof (induction rule: reachable.induct)
  case (r_init s)
  then show ?case by (rule inv_initial)
next
  case (r_input s v)
  then show ?case by (simp add: inv_handleInput)
next
  case (r_delete s)
  then show ?case by (simp add: inv_handleDelete)
next
  case (r_evaluate s)
  then show ?case by (simp add: inv_handlePin)
next
  case (r_focus s)
  then show ?case by (simp add: inv_focusEffect)
next
  case (r_blur s)
  then show ?case by (simp add: inv_focusCleanup)
next
  case (r_mount s)
  then show ?case by (simp add: inv_mountEffect)
next
  case (r_count s)
  then show ?case by (simp add: inv_lockoutCheck)
next
  case (r_type s)
  then show ?case by (simp add: inv_typeEffect)
next
  case (r_biometric s outcome)
  then show ?case by (simp add: inv_biometricEffect)
next
  case (r_reset s)
  then show ?case by (simp add: inv_onResetPin)
next
  case (r_later s)
  then show ?case by (simp add: inv_onLater)
qed

text \<open>
  Claim C4. The check of the lockout threshold, run by the focus effect and by the
  effect on the retry count, makes a hidden prompt visible exactly when the mode is
  Authenticate and the retry count is at least 10. In every reachable state a visible
  prompt means Authenticate mode and a retry count of at least 10, so the prompt is never
  visible in Set or Reset mode. In a reachable state in Authenticate mode with retry
  count 9 the warning line is rendered, the prompt is hidden, and neither check shows it.
\<close>

theorem lockout_prompt_visibility:
  "(lockoutPromptVisible (lockoutCheck p s) \<longleftrightarrow>
      lockoutPromptVisible s \<or> (ptype p = PinAuth \<and> pinTryCount s \<ge> 10)) \<and>
   (lockoutPromptVisible (focusEffect p s) \<longleftrightarrow>
      lockoutPromptVisible s \<or> (ptype p = PinAuth \<and> pinTryCount s \<ge> 10)) \<and>
   (reachable p s \<and> lockoutPromptVisible s \<longrightarrow>
      ptype p = PinAuth \<and> pinType s = PinAuth \<and> pinTryCount s \<ge> 10) \<and>
   (reachable p s \<and> pinType s = PinAuth \<and> pinTryCount s = 9 \<longrightarrow>
      resetWarningShown s \<and> \<not> lockoutPromptVisible s \<and>
      \<not> lockoutPromptVisible (lockoutCheck p s) \<and>
      \<not> lockoutPromptVisible (focusEffect p s))"
proof -
  have check: "lockoutPromptVisible (lockoutCheck p s) \<longleftrightarrow>
      lockoutPromptVisible s \<or> (ptype p = PinAuth \<and> pinTryCount s \<ge> 10)"
    by (auto simp add: lockoutPromptVisible_def lockoutCheck_def setVisibleResetModal_def
        PIN_TRY_MAX_def)
  have focus: "lockoutPromptVisible (focusEffect p s) \<longleftrightarrow>
      lockoutPromptVisible s \<or> (ptype p = PinAuth \<and> pinTryCount s \<ge> 10)"
    by (auto simp add: lockoutPromptVisible_def focusEffect_def setVisibleResetModal_def
        initPinTryCount_def PIN_TRY_MAX_def Let_def)
  have inv: "ptype p = PinAuth \<and> pinType s = PinAuth \<and> pinTryCount s \<ge> 10"
    if "reachable p s" "lockoutPromptVisible s"
    using reachable_inv [OF that(1)] that(2)
    by (simp add: lockout_inv_def lockoutPromptVisible_def PIN_TRY_MAX_def)
  have nine: "resetWarningShown s \<and> \<not> lockoutPromptVisible s \<and>
      \<not> lockoutPromptVisible (lockoutCheck p s) \<and>
      \<not> lockoutPromptVisible (focusEffect p s)"
    if "reachable p s" "pinType s = PinAuth" "pinTryCount s = 9"
  proof -
    have "\<not> lockoutPromptVisible s" using inv that by fastforce
    then show ?thesis using check focus that
      by (simp add: resetWarningShown_def PIN_TRY_MAX_def)
  qed
  show ?thesis using check focus inv nine by blast
qed

theorem lockout_prompt_visibility_witness:
  "reachable (example_params PinAuth)
     (lockoutCheck (example_params PinAuth) (mountEffect (example_fresh PinAuth 10))) \<and>
   lockoutPromptVisible
     (lockoutCheck (example_params PinAuth) (mountEffect (example_fresh PinAuth 10))) \<and>
   pinTryCount
     (lockoutCheck (example_params PinAuth) (mountEffect (example_fresh PinAuth 10))) = 10 \<and>
   reachable (example_params PinAuth) (mountEffect (example_fresh PinAuth 9)) \<and>
   pinType (mountEffect (example_fresh PinAuth 9)) = PinAuth \<and>
   pinTryCount (mountEffect (example_fresh PinAuth 9)) = 9 \<and>
   resetWarningShown (mountEffect (example_fresh PinAuth 9)) \<and>
   \<not> lockoutPromptVisible
     (lockoutCheck (example_params PinAuth) (mountEffect (example_fresh PinAuth 9))) \<and>
   \<not> lockoutPromptVisible
     (lockoutCheck (example_params PinSet) (mountEffect (example_fresh PinSet 10)))"
proof -
  have r10: "reachable (example_params PinAuth) (mountEffect (example_fresh PinAuth 10))"
    by (rule r_mount, rule r_init) (simp add: initial_def)
  have r10': "reachable (example_params PinAuth)
     (lockoutCheck (example_params PinAuth) (mountEffect (example_fresh PinAuth 10)))"
    using r10 by (rule r_count)
  have r9: "reachable (example_params PinAuth) (mountEffect (example_fresh PinAuth 9))"
    by (rule r_mount, rule r_init) (simp add: initial_def)
  have m10: "pinTryCount (mountEffect (example_fresh PinAuth 10)) = 10"
    and m9: "pinTryCount (mountEffect (example_fresh PinAuth 9)) = 9"
    and t9: "pinType (mountEffect (example_fresh PinAuth 9)) = PinAuth"
    and h10: "\<not> lockoutPromptVisible (mountEffect (example_fresh PinSet 10))"
    by (simp_all add: mountEffect_def set_defs store_defs lockoutPromptVisible_def)
  have c10: "pinTryCount
     (lockoutCheck (example_params PinAuth) (mountEffect (example_fresh PinAuth 10))) = 10"
    using m10 by (simp add: lockoutCheck_def set_defs)
  show ?thesis
    using r10' r9 m10 m9 t9 h10 c10
      lockout_prompt_visibility [of "example_params PinAuth"
        "mountEffect (example_fresh PinAuth 10)"]
      lockout_prompt_visibility [of "example_params PinAuth"
        "lockoutCheck (example_params PinAuth) (mountEffect (example_fresh PinAuth 10))"]
      lockout_prompt_visibility [of "example_params PinAuth"
        "mountEffect (example_fresh PinAuth 9)"]
      lockout_prompt_visibility [of "example_params PinSet"
        "mountEffect (example_fresh PinSet 10)"]
    by simp
qed

text \<open>
  Claim C6. Confirming the reset calls \<open>removeKeys\<close> of the credential store, which
  wipes the active and the staged PIN, and then restarts the application. The negative
  action pops the screen and changes nothing of the state; the screen then loses the
  focus and the cleanup of the focus effect hides the prompt. After both, the retry
  count is as before, in memory and in storage, and so is everything else but the
  visibility of the prompt.
\<close>

theorem lockout_reset_or_defer:
  "onResetPin s = s\<lparr>storedPin := None, storedNewPin := [],
       calls := calls s @ [RemoveKeys, Restart]\<rparr> \<and>
   onLater s = s\<lparr>calls := calls s @ [NavigationPop]\<rparr> \<and>
   focusCleanup (onLater s) =
     s\<lparr>visibleResetModal := False, calls := calls s @ [NavigationPop]\<rparr> \<and>
   \<not> lockoutPromptVisible (focusCleanup (onLater s)) \<and>
   pinTryCount (focusCleanup (onLater s)) = pinTryCount s \<and>
   storedTryCount (focusCleanup (onLater s)) = storedTryCount s"
  by (simp add: onResetPin_def removeKeys_def onLater_def focusCleanup_def
      setVisibleResetModal_def lockoutPromptVisible_def)

theorem lockout_reset_or_defer_witness:
  "onResetPin ((example_state PinAuth [] (Some ''1234'') [] 10)\<lparr>visibleResetModal := True\<rparr>) =
     (example_state PinAuth [] None [] 10)\<lparr>visibleResetModal := True,
        calls := [RemoveKeys, Restart]\<rparr> \<and>
   focusCleanup (onLater
       ((example_state PinAuth [] (Some ''1234'') [] 10)\<lparr>visibleResetModal := True\<rparr>)) =
     (example_state PinAuth [] (Some ''1234'') [] 10)\<lparr>calls := [NavigationPop]\<rparr>"
  using lockout_reset_or_defer [of
    "(example_state PinAuth [] (Some ''1234'') [] 10)\<lparr>visibleResetModal := True\<rparr>"]
  by (simp add: onLater_def)

section \<open>The biometric shortcut\<close>

text \<open>
  Claim C7. In Authenticate mode with a biometric type reported, the effect calls the
  scanner whatever the buffer holds. When the scanner succeeds the result callback is
  called with \<open>true\<close>. When it fails the error is logged to the console and nothing else
  happens: no alert, no change of the state. Digit entry and deleting work after a
  failure as they do without it.
\<close>

theorem biometric_attempt:
  "pinType s = PinAuth \<and> biometricType p = Some b \<longrightarrow>
   biometricEffect p BiometricSuccess s =
     s\<lparr>calls := calls s @ [FingerprintAuthenticate (''Sign in with '' @ b)] @
        (if hasResult p then [ResultCallback True] else [])\<rparr> \<and>
   biometricEffect p (BiometricFailure e) s =
     s\<lparr>calls := calls s @ [FingerprintAuthenticate (''Sign in with '' @ b), ConsoleLog e]\<rparr> \<and>
   handleInput v (biometricEffect p (BiometricFailure e) s) =
     biometricEffect p (BiometricFailure e) (handleInput v s) \<and>
   handleDelete (biometricEffect p (BiometricFailure e) s) =
     biometricEffect p (BiometricFailure e) (handleDelete s)"
  by (auto simp add: biometricEffect_def resultCallback_def handleInput_def handleDelete_def
      Let_def)

theorem biometric_attempt_witness:
  "pinType (example_state PinAuth ''12'' (Some ''1234'') [] 3) = PinAuth \<and>
   biometricType (example_params PinAuth) = Some ''FaceID'' \<and>
   biometricEffect (example_params PinAuth) BiometricSuccess
       (example_state PinAuth ''12'' (Some ''1234'') [] 3) =
     (example_state PinAuth ''12'' (Some ''1234'') [] 3)\<lparr>
        calls := [FingerprintAuthenticate ''Sign in with FaceID'', ResultCallback True]\<rparr> \<and>
   biometricEffect (example_params PinAuth) (BiometricFailure ''UserCancel'')
       (example_state PinAuth ''12'' (Some ''1234'') [] 3) =
     (example_state PinAuth ''12'' (Some ''1234'') [] 3)\<lparr>
        calls := [FingerprintAuthenticate ''Sign in with FaceID'', ConsoleLog ''UserCancel'']\<rparr>"
  using biometric_attempt [of "example_state PinAuth ''12'' (Some ''1234'') [] 3"
      "example_params PinAuth" "''FaceID''" "''UserCancel''" "''3''"]
  by simp

text \<open>
  Claim C10. A biometric success changes nothing but the trace of calls: the retry
  count in memory and in storage, the buffer, the configure phase and the visibility
  of the lockout prompt are as before, so a retry count that is not 0 stays as it
  is, whereas the evaluation of a matching PIN sets it to 0. With a result callback
  supplied, the calls added are the scanner call and the callback with \<open>true\<close>.
\<close>

theorem biometric_success_frame:
  "biometricEffect p BiometricSuccess s =
     s\<lparr>calls := calls (biometricEffect p BiometricSuccess s)\<rparr> \<and>
   pinTryCount (biometricEffect p BiometricSuccess s) = pinTryCount s \<and>
   storedTryCount (biometricEffect p BiometricSuccess s) = storedTryCount s \<and>
   inputPin (biometricEffect p BiometricSuccess s) = inputPin s \<and>
   pinConfigurePhase (biometricEffect p BiometricSuccess s) = pinConfigurePhase s \<and>
   lockoutPromptVisible (biometricEffect p BiometricSuccess s) = lockoutPromptVisible s \<and>
   (pinType s = PinAuth \<and> biometricType p = Some b \<and> hasResult p \<longrightarrow>
      calls (biometricEffect p BiometricSuccess s) =
        calls s @ [FingerprintAuthenticate (''Sign in with '' @ b), ResultCallback True]) \<and>
   (pinType s = PinAuth \<and> length (inputPin s) = 4 \<and> storedPin s = Some (inputPin s) \<longrightarrow>
      pinTryCount (handlePin p s) = 0)"
  by (auto simp add: biometricEffect_def lockoutPromptVisible_def
      handlePin_def store_defs set_defs falsy_def Let_def split: option.splits)

theorem biometric_success_frame_witness:
  "pinType (example_state PinAuth ''1234'' (Some ''1234'') [] 3) = PinAuth \<and>
   biometricType (example_params PinAuth) = Some ''FaceID'' \<and>
   hasResult (example_params PinAuth) \<and>
   pinTryCount (biometricEffect (example_params PinAuth) BiometricSuccess
     (example_state PinAuth ''1234'' (Some ''1234'') [] 3)) = 3 \<and>
   storedTryCount (biometricEffect (example_params PinAuth) BiometricSuccess
     (example_state PinAuth ''1234'' (Some ''1234'') [] 3)) = Some 3 \<and>
   calls (biometricEffect (example_params PinAuth) BiometricSuccess
     (example_state PinAuth ''1234'' (Some ''1234'') [] 3)) =
       [FingerprintAuthenticate ''Sign in with FaceID'', ResultCallback True] \<and>
   pinTryCount (handlePin (example_params PinAuth)
     (example_state PinAuth ''1234'' (Some ''1234'') [] 3)) = 0"
  using biometric_success_frame [of "example_params PinAuth"
      "example_state PinAuth ''1234'' (Some ''1234'') [] 3" "''FaceID''"]
  by simp

end
